theory Spec2Isabelle
  imports Complex_Main "HOL-Library.Word" "HOL-Library.Sublist"
begin

section \<open>Source files and results\<close>

text \<open>
  Both servers (\<^verbatim>\<open>api-server.py\<close>, the local Flask server, and
  \<^verbatim>\<open>geospatial-cloud-server-image/src/main.py\<close>, the Lambda handler) hand a path to
  their processing functions. What the functions see of the file system is modelled as the
  state of that one file: it does not exist (\<^verbatim>\<open>os.path.exists\<close> is false), it exists but
  opening or reading it raises, or it opens and yields its content.
\<close>

datatype 'a source_file = Missing | Unreadable | Opened 'a

text \<open>
  The functions return a Python pair \<^verbatim>\<open>(artifact, error)\<close>, one side \<^verbatim>\<open>None\<close>. The
  error side is a message; the datatype names the message's origin:
  \<^item> \<open>SourceNotFound\<close>: \<^verbatim>\<open>"Raster source file not found."\<close>, \<^verbatim>\<open>"Vector source file not found."\<close>
  \<^item> \<open>UniformData\<close>: \<^verbatim>\<open>"TIF data is uniform ... and cannot be scaled."\<close>
  \<^item> \<open>ProcessingException\<close>: the \<^verbatim>\<open>except Exception as e\<close> branch
  \<^item> \<open>SavedFileCorrupt\<close>: \<^verbatim>\<open>"FATAL ERROR: Saved file is corrupt after processing"\<close>
\<close>

datatype failure = SourceNotFound | UniformData | ProcessingException | SavedFileCorrupt

type_synonym 'a returned = "'a option \<times> failure option"

section \<open>Raster normalizer: \<^verbatim>\<open>process_tif_to_png\<close>\<close>

text \<open>
  \<^verbatim>\<open>src.read(1)\<close> is a two-dimensional array of samples and \<^verbatim>\<open>src.nodata\<close> an optional
  sentinel. Samples are integers (the sources speak of UInt32 class rasters); the
  subtractions are taken in the integers, and the true division and the multiplication by
  255, which numpy performs in float64, are taken in the reals.
\<close>

record raster_source =
  image_array :: "int list list"
  nodata_val :: "int option"

type_synonym image_8bit = "8 word list list"

text \<open>
  \<^verbatim>\<open>np.ma.masked_equal(image_array, nodata_val)\<close> hides the cells equal to the sentinel;
  without a sentinel the reductions run over every cell.
\<close>

definition valid_data :: "raster_source \<Rightarrow> int list" where
  "valid_data src =
     (case nodata_val src of
        Some nd \<Rightarrow> filter (\<lambda>x. x \<noteq> nd) (concat (image_array src))
      | None \<Rightarrow> concat (image_array src))"

text \<open>
  \<^verbatim>\<open>np.min\<close> and \<^verbatim>\<open>np.max\<close> of a masked array reduce over the cells that are not masked.
  When every cell is masked the result is the constant \<^verbatim>\<open>numpy.ma.masked\<close>: arithmetic
  and comparisons with it give \<^verbatim>\<open>masked\<close> again, and its truth value is \<^verbatim>\<open>False\<close>.
\<close>

datatype reduced = Masked | Val int

definition np_min :: "int list \<Rightarrow> reduced" where
  "np_min vs = (case vs of [] \<Rightarrow> Masked | v # vs' \<Rightarrow> Val (fold min vs' v))"

definition np_max :: "int list \<Rightarrow> reduced" where
  "np_max vs = (case vs of [] \<Rightarrow> Masked | v # vs' \<Rightarrow> Val (fold max vs' v))"

text \<open>Step 3, \<^verbatim>\<open>((image_array - min_val) / range_val) * 255\<close>, for one cell.\<close>

definition image_array_scaled :: "int \<Rightarrow> int \<Rightarrow> int \<Rightarrow> real" where
  "image_array_scaled min_val range_val x = (of_int (x - min_val) / of_int range_val) * 255"

text \<open>
  Step 4, \<^verbatim>\<open>.astype(np.uint8)\<close>: the fraction is dropped (truncation towards zero) and the
  integer is reduced modulo 256. Nothing rounds and nothing clamps.
\<close>

definition astype_uint8 :: "real \<Rightarrow> 8 word" where
  "astype_uint8 v = word_of_int (if 0 \<le> v then \<lfloor>v\<rfloor> else \<lceil>v\<rceil>)"

text \<open>
  The lines the two servers share, from the read to the 8-bit array (steps 1 to 5).
  A reduction over an array without cells raises. With \<^verbatim>\<open>masked\<close> for the minimum
  and maximum, \<^verbatim>\<open>range_val <= 0\<close> is \<^verbatim>\<open>masked\<close>, hence not taken; every cell is then the
  sentinel, and step 5 sets every cell to 0.
\<close>

definition image_array_8bit :: "raster_source \<Rightarrow> failure + image_8bit" where
  "image_array_8bit src =
     (if concat (image_array src) = [] then Inl ProcessingException
      else
        (case (np_min (valid_data src), np_max (valid_data src)) of
           (Val min_val, Val max_val) \<Rightarrow>
             (let range_val = max_val - min_val in
              if range_val \<le> 0 then Inl UniformData
              else Inr (map (map (\<lambda>x. if nodata_val src = Some x then 0
                                        else astype_uint8 (image_array_scaled min_val range_val x)))
                         (image_array src)))
         | _ \<Rightarrow> Inr (map (map (\<lambda>x. 0)) (image_array src))))"

text \<open>
  Writing the PNG can raise, and the local server reopens the written file with PIL as an
  integrity check; both are inputs from the environment.
\<close>

record io_env =
  png_write_ok :: bool
  png_check_ok :: bool

text \<open>\<^verbatim>\<open>api-server.py\<close>, \<^verbatim>\<open>process_tif_to_png\<close>. The artifact stands for the written PNG.\<close>

definition process_tif_to_png_local ::
  "io_env \<Rightarrow> raster_source source_file \<Rightarrow> image_8bit returned" where
  "process_tif_to_png_local env file =
     (case file of
        Missing \<Rightarrow> (None, Some SourceNotFound)
      | Unreadable \<Rightarrow> (None, Some ProcessingException)
      | Opened src \<Rightarrow>
          (case image_array_8bit src of
             Inl e \<Rightarrow> (None, Some e)
           | Inr img \<Rightarrow>
               if \<not> png_write_ok env then (None, Some ProcessingException)
               else if \<not> png_check_ok env then (None, Some SavedFileCorrupt)
               else (Some img, None)))"

text \<open>\<^verbatim>\<open>main.py\<close>, \<^verbatim>\<open>process_tif_to_png\<close>: the same without the integrity check.\<close>

definition process_tif_to_png_cloud ::
  "io_env \<Rightarrow> raster_source source_file \<Rightarrow> image_8bit returned" where
  "process_tif_to_png_cloud env file =
     (case file of
        Missing \<Rightarrow> (None, Some SourceNotFound)
      | Unreadable \<Rightarrow> (None, Some ProcessingException)
      | Opened src \<Rightarrow>
          (case image_array_8bit src of
             Inl e \<Rightarrow> (None, Some e)
           | Inr img \<Rightarrow>
               if \<not> png_write_ok env then (None, Some ProcessingException)
               else (Some img, None)))"

section \<open>Vector normalizer: \<^verbatim>\<open>get_geojson_data\<close>\<close>

text \<open>
  \<^verbatim>\<open>gpd.read_file\<close> yields a GeoDataFrame: the CRS of the file, absent when the file
  declares none, and the rows in file order, each with its attributes and its geometry
  (\<^verbatim>\<open>None\<close> for a row without geometry). Attribute mappings \<open>'p\<close> and geometries \<open>'g\<close> are
  left open: the servers never look into them. A CRS is written by its identifier, and
  the comparison \<^verbatim>\<open>gdf.crs != "EPSG:4326"\<close> is the comparison of identifiers.
  \<^verbatim>\<open>gdf.to_json()\<close> followed by \<^verbatim>\<open>json.loads\<close> turns the frame into the feature-collection
  dictionary with the same rows in the same order; the frame stands for that dictionary.
\<close>

type_synonym crs_id = string

record ('p, 'g) geo_data_frame =
  crs :: "crs_id option"
  features :: "('p \<times> 'g option) list"

text \<open>
  \<^verbatim>\<open>gdf.to_crs(epsg=4326)\<close>: geopandas raises on a frame without CRS; otherwise every
  geometry goes through the library's transformation from the frame's CRS, given here as
  the parameter \<open>transform\<close>, and the frame is tagged EPSG:4326.
\<close>

definition to_crs ::
  "(crs_id \<Rightarrow> 'g \<Rightarrow> 'g) \<Rightarrow> ('p, 'g) geo_data_frame \<Rightarrow> ('p, 'g) geo_data_frame option" where
  "to_crs transform gdf =
     (case crs gdf of
        None \<Rightarrow> None
      | Some c \<Rightarrow>
          Some \<lparr>crs = Some ''EPSG:4326'',
                features = map (\<lambda>(p, g). (p, map_option (transform c) g)) (features gdf)\<rparr>)"

text \<open>\<^verbatim>\<open>api-server.py\<close>, \<^verbatim>\<open>get_geojson_data\<close>: read, serialise, return.\<close>

definition get_geojson_data_local ::
  "('p, 'g) geo_data_frame source_file \<Rightarrow> ('p, 'g) geo_data_frame returned" where
  "get_geojson_data_local file =
     (case file of
        Missing \<Rightarrow> (None, Some SourceNotFound)
      | Unreadable \<Rightarrow> (None, Some ProcessingException)
      | Opened gdf \<Rightarrow> (Some gdf, None))"

text \<open>\<^verbatim>\<open>main.py\<close>, \<^verbatim>\<open>get_geojson_data\<close>: read, convert unless tagged EPSG:4326, serialise.\<close>

definition get_geojson_data_cloud ::
  "(crs_id \<Rightarrow> 'g \<Rightarrow> 'g) \<Rightarrow> ('p, 'g) geo_data_frame source_file
     \<Rightarrow> ('p, 'g) geo_data_frame returned" where
  "get_geojson_data_cloud transform file =
     (case file of
        Missing \<Rightarrow> (None, Some SourceNotFound)
      | Unreadable \<Rightarrow> (None, Some ProcessingException)
      | Opened gdf \<Rightarrow>
          if crs gdf \<noteq> Some ''EPSG:4326'' then
            (case to_crs transform gdf of
               None \<Rightarrow> (None, Some ProcessingException)
             | Some gdf' \<Rightarrow> (Some gdf', None))
          else (Some gdf, None))"

section \<open>Dispatch on the file name\<close>












section \<open>Notions used in the statements\<close>



text \<open>The minimum, the maximum and the range of the valid samples, as mathematical values.\<close>

definition valid_min :: "raster_source \<Rightarrow> int" where
  "valid_min src = Min (set (valid_data src))"

definition valid_max :: "raster_source \<Rightarrow> int" where
  "valid_max src = Max (set (valid_data src))"



text \<open>An environment in which the PNG is written and passes the integrity check.\<close>

definition env_ok :: io_env where
  "env_ok = \<lparr>png_write_ok = True, png_check_ok = True\<rparr>"



definition all_nodata :: raster_source where
  "all_nodata = \<lparr>image_array = [[99, 99]], nodata_val = Some 99\<rparr>"

definition mercator_town :: "(string, int \<times> int) geo_data_frame" where
  "mercator_town =
     \<lparr>crs = Some ''EPSG:3857'', features = [(''town'', Some (1113195, 0)), (''void'', None)]\<rparr>"

definition wgs84_town :: "(string, int \<times> int) geo_data_frame" where
  "wgs84_town =
     \<lparr>crs = Some ''EPSG:4326'', features = [(''town'', Some (10, 0)), (''void'', None)]\<rparr>"

section \<open>The reductions and the scaling\<close>

lemma np_min_Val: "vs \<noteq> [] \<Longrightarrow> np_min vs = Val (Min (set vs))"
  by (cases vs) (simp_all add: np_min_def Min.set_eq_fold [symmetric] del: set_simps)

lemma np_max_Val: "vs \<noteq> [] \<Longrightarrow> np_max vs = Val (Max (set vs))"
  by (cases vs) (simp_all add: np_max_def Max.set_eq_fold [symmetric] del: set_simps)

lemma valid_data_subset: "set (valid_data src) \<subseteq> set (concat (image_array src))"
  by (auto simp: valid_data_def split: option.splits)














lemma valid_min_in: "valid_data src \<noteq> [] \<Longrightarrow> valid_min src \<in> set (valid_data src)"
  unfolding valid_min_def by (rule Min_in) simp_all

lemma valid_max_in: "valid_data src \<noteq> [] \<Longrightarrow> valid_max src \<in> set (valid_data src)"
  unfolding valid_max_def by (rule Max_in) simp_all



section \<open>Evaluations at the scenario\<close>







section \<open>Raster normalizer: the claims\<close>






text \<open>
  C5 at an all-nodata raster: every cell holds the sentinel 99. The reductions give
  \<^verbatim>\<open>masked\<close>, the test \<^verbatim>\<open>range_val <= 0\<close> is not taken, and both servers return an
  all-zero image and no error, where the claim asks for the uniform-data failure.
\<close>

theorem all_nodata_blank_image:
  "process_tif_to_png_local env_ok (Opened all_nodata) = (Some [[0, 0]], None)
   \<and> process_tif_to_png_cloud env_ok (Opened all_nodata) = (Some [[0, 0]], None)"
  by (simp add: process_tif_to_png_local_def process_tif_to_png_cloud_def image_array_8bit_def
        valid_data_def np_min_def np_max_def all_nodata_def env_ok_def)

text \<open>
  A raster with at least one valid sample, all valid samples equal, is rejected with the
  uniform-data failure and no image.
\<close>

lemma uniform_valid_data_rejected:
  assumes "valid_data src \<noteq> []" and "\<forall>a\<in>set (valid_data src). \<forall>b\<in>set (valid_data src). a = b"
  shows "process_tif_to_png_local env (Opened src) = (None, Some UniformData)"
    and "process_tif_to_png_cloud env (Opened src) = (None, Some UniformData)"
proof -
  have c: "concat (image_array src) \<noteq> []"
  proof
    assume "concat (image_array src) = []"
    then have "set (valid_data src) \<subseteq> {}" using valid_data_subset [of src] by (simp del: set_concat concat_eq_Nil_conv)
    then show False using assms(1) by simp
  qed
  have "valid_max src = valid_min src"
    using assms(2) valid_min_in [OF assms(1)] valid_max_in [OF assms(1)] by blast
  then have e: "image_array_8bit src = Inl UniformData"
    using c by (simp add: image_array_8bit_def np_min_Val [OF assms(1)] np_max_Val [OF assms(1)] valid_min_def valid_max_def)
  show "process_tif_to_png_local env (Opened src) = (None, Some UniformData)"
    by (simp add: process_tif_to_png_local_def e)
  show "process_tif_to_png_cloud env (Opened src) = (None, Some UniformData)"
    by (simp add: process_tif_to_png_cloud_def e)
qed





section \<open>Vector normalizer: the claims\<close>

text \<open>The Lambda handler's normalizer converts a frame tagged with another CRS.\<close>

lemma cloud_vector_reprojected:
  assumes "crs gdf = Some c" and "c \<noteq> ''EPSG:4326''"
  shows "get_geojson_data_cloud transform (Opened gdf) =
     (Some \<lparr>crs = Some ''EPSG:4326'',
            features = map (\<lambda>(p, g). (p, map_option (transform c) g)) (features gdf)\<rparr>, None)"
  using assms by (simp add: get_geojson_data_cloud_def to_crs_def)

text \<open>
  C1 at a source tagged EPSG:3857: the local server returns the frame as read, tagged
  EPSG:3857 and with the coordinates of the file, where the Lambda handler returns every
  geometry transformed and the frame tagged EPSG:4326.
\<close>

theorem local_vector_not_reprojected:
  "get_geojson_data_local (Opened mercator_town) = (Some mercator_town, None)
   \<and> get_geojson_data_cloud transform (Opened mercator_town) =
       (Some \<lparr>crs = Some ''EPSG:4326'',
              features = [(''town'', Some (transform ''EPSG:3857'' (1113195, 0))), (''void'', None)]\<rparr>, None)"
  by (simp add: get_geojson_data_local_def get_geojson_data_cloud_def to_crs_def mercator_town_def)

text \<open>
  C8. For every vector source already tagged EPSG:4326, both servers return the frame as
  read: the same features in the same order, with the same attributes and the same
  geometries, whatever the transformation would do.
\<close>

theorem vector_pass_through:
  assumes "crs gdf = Some ''EPSG:4326''"
  shows "get_geojson_data_local (Opened gdf) = (Some gdf, None)
       \<and> get_geojson_data_cloud transform (Opened gdf) = (Some gdf, None)"
  using assms by (simp add: get_geojson_data_local_def get_geojson_data_cloud_def)

theorem vector_pass_through_witness:
  "crs wgs84_town = Some ''EPSG:4326''
   \<and> get_geojson_data_local (Opened wgs84_town) = (Some wgs84_town, None)
   \<and> get_geojson_data_cloud (\<lambda>c (x, y). (x + 1, y + 1)) (Opened wgs84_town) = (Some wgs84_town, None)"
proof -
  have h: "crs wgs84_town = Some ''EPSG:4326''" by (simp add: wgs84_town_def)
  from vector_pass_through [OF h, of "\<lambda>c (x, y). (x + 1, y + 1)"] h show ?thesis by simp
qed

section \<open>One outcome\<close>


section \<open>Dispatch: the claims\<close>
















end
